theory Spec2Isabelle
  imports Main "HOL-Library.Word"
begin

section \<open>The Bittensor network switcher\<close>

text \<open>
  A shallow embedding of \<^verbatim>\<open>bittensor_network_switcher.py\<close>: the class
  \<^verbatim>\<open>BittensorNetworkSwitcher\<close> with its constructor and its five methods, and
  \<^verbatim>\<open>main\<close>. The program is I/O glue, so the model threads an explicit world (the
  directory \<^verbatim>\<open>~/.bittensor\<close> with its file \<^verbatim>\<open>network_config.json\<close>, the
  characters written to standard output, and the file-system calls made so far) through
  every function, and every \<^verbatim>\<open>raise\<close> of the source or of the library calls it
  makes is a value \<open>Inl e\<close>.
\<close>

subsection \<open>Python values\<close>

text \<open>
  A Python \<^verbatim>\<open>str\<close> is a sequence of Unicode code points; \<open>ascii\<close> reads an ASCII
  literal of the source as such a sequence.
\<close>

type_synonym pystr = "nat list"

definition ascii :: "string \<Rightarrow> pystr" where
  "ascii cs = map of_char cs"

text \<open>
  The values \<^verbatim>\<open>json.load\<close> returns: \<^verbatim>\<open>None\<close>, \<^verbatim>\<open>bool\<close>, \<^verbatim>\<open>int\<close>,
  \<^verbatim>\<open>float\<close> (kept as the 64 bits of the double, which the program never inspects),
  \<^verbatim>\<open>str\<close>, \<^verbatim>\<open>list\<close> and \<^verbatim>\<open>dict\<close>. A dict keeps its keys in insertion order,
  so it is an association list.
\<close>

datatype pyval =
    PyNone
  | PyBool bool
  | PyInt int
  | PyFloat "64 word"
  | PyStr pystr
  | PyList "pyval list"
  | PyDict "(pystr \<times> pyval) list"

datatype exn =
    FileNotFoundError
  | JSONDecodeError
  | UnicodeDecodeError
  | ValueError
  | RecursionError
  | TypeError
  | AttributeError
  | KeyboardInterrupt
  | EOFError
  | SystemExit int

text \<open>
  \<^verbatim>\<open>d[k] = v\<close> on a dict: the value of an existing key is replaced in place, a new
  key is appended.
\<close>

fun dict_set :: "pystr \<Rightarrow> pyval \<Rightarrow> (pystr \<times> pyval) list \<Rightarrow> (pystr \<times> pyval) list" where
  "dict_set k v [] = [(k, v)]"
| "dict_set k v (kv # kvs) = (if fst kv = k then (k, v) # kvs else kv # dict_set k v kvs)"

text \<open>
  \<^verbatim>\<open>obj[k] = v\<close> for a string \<open>k\<close>: every value that is not a dict raises
  \<^verbatim>\<open>TypeError\<close> (a list wants integer indices, the others support no item assignment).
\<close>

definition setitem :: "pyval \<Rightarrow> pystr \<Rightarrow> pyval \<Rightarrow> exn + pyval" where
  "setitem obj k v = (case obj of PyDict d \<Rightarrow> Inr (PyDict (dict_set k v d)) | _ \<Rightarrow> Inl TypeError)"

text \<open>
  \<^verbatim>\<open>obj.get(k, default)\<close>: only a dict has the attribute \<^verbatim>\<open>get\<close>.
\<close>

definition get_method :: "pyval \<Rightarrow> pystr \<Rightarrow> pyval \<Rightarrow> exn + pyval" where
  "get_method obj k dflt =
     (case obj of
        PyDict d \<Rightarrow> Inr (case map_of d k of None \<Rightarrow> dflt | Some v \<Rightarrow> v)
      | _ \<Rightarrow> Inl AttributeError)"

text \<open>
  A replacement field \<^verbatim>\<open>{x}\<close> of an f-string is \<^verbatim>\<open>str(x)\<close>: a str is itself; the
  \<^verbatim>\<open>str()\<close> of the other values (Python's \<^verbatim>\<open>repr\<close> of floats, lists and dicts) is
  the parameter \<open>py_str\<close>.
\<close>

definition format_field :: "(pyval \<Rightarrow> pystr) \<Rightarrow> pyval \<Rightarrow> pystr" where
  "format_field py_str v = (case v of PyStr s \<Rightarrow> s | _ \<Rightarrow> py_str v)"

text \<open>
  \<^verbatim>\<open>str.strip()\<close> removes leading and trailing whitespace; these are the code points
  for which \<^verbatim>\<open>str.isspace\<close> holds.
\<close>

definition isspace :: "nat \<Rightarrow> bool" where
  "isspace c =
     ((0x09 \<le> c \<and> c \<le> 0x0D) \<or> (0x1C \<le> c \<and> c \<le> 0x20) \<or> c = 0x85 \<or> c = 0xA0
      \<or> c = 0x1680 \<or> (0x2000 \<le> c \<and> c \<le> 0x200A) \<or> c = 0x2028 \<or> c = 0x2029
      \<or> c = 0x202F \<or> c = 0x205F \<or> c = 0x3000)"

definition strip :: "pystr \<Rightarrow> pystr" where
  "strip s = rev (dropWhile isspace (rev (dropWhile isspace s)))"

subsection \<open>The world\<close>

text \<open>
  What the file \<^verbatim>\<open>~/.bittensor/network_config.json\<close> holds, as the two library calls
  of \<^verbatim>\<open>read_config\<close> see it:
  \<^item> \<open>Undecodable\<close>: bytes that are not text in the encoding of \<^verbatim>\<open>open(path, 'r')\<close>;
    reading them raises \<^verbatim>\<open>UnicodeDecodeError\<close>;
  \<^item> \<open>Malformed\<close>: text that \<^verbatim>\<open>json.load\<close> rejects with \<^verbatim>\<open>JSONDecodeError\<close>;
  \<^item> \<open>DigitLimit\<close>: text with an integer literal of more digits than the interpreter
    converts (4300 by default), JSON though it may be; \<^verbatim>\<open>json.load\<close> raises
    \<^verbatim>\<open>ValueError\<close>;
  \<^item> \<open>DepthLimit\<close>: text nested deeper than the recursion limit of the interpreter
    allows, JSON or not; \<^verbatim>\<open>json.load\<close> raises \<^verbatim>\<open>RecursionError\<close>;
  \<^item> \<open>Json v\<close>: text that \<^verbatim>\<open>json.load\<close> parses, and \<open>v\<close> is what it returns.

  \<^verbatim>\<open>json.dump\<close> writes text that parses back to the value dumped, so the file that
  \<^verbatim>\<open>write_config\<close> leaves is \<open>Json config\<close>.

  The directory \<^verbatim>\<open>~/.bittensor\<close> is absent, or exists and holds the file or not.
  Failures of the file system other than a missing file or directory (permissions, a full
  disk, a regular file in the place of the directory) are outside the model, and so is a
  standard output that cannot encode a character printed: \<^verbatim>\<open>print\<close> always succeeds.
\<close>

datatype content = Undecodable | Malformed | DigitLimit | DepthLimit | Json pyval

datatype filesystem = NoDir | Dir "content option"

fun config_file :: "filesystem \<Rightarrow> content option" where
  "config_file NoDir = None"
| "config_file (Dir f) = f"

datatype syscall = Makedirs | OpenRead | OpenWrite

record world =
  disk :: filesystem
  stdout :: pystr
  calls :: "syscall list"

text \<open>
  What happens at a read from standard input: a line arrives; or Ctrl-C while
  \<^verbatim>\<open>input\<close> waits (\<open>Interrupt\<close>); or Ctrl-C while \<^verbatim>\<open>input\<close> waits and a second
  Ctrl-C once the handler of the first has been entered, before it has printed
  (\<open>InterruptTwice\<close>). Standard input is a finite list of these; at its end
  \<^verbatim>\<open>input\<close> raises \<^verbatim>\<open>EOFError\<close>. A Ctrl-C that arrives while one of the methods
  runs is outside the model, as are the other failures in the middle of a write.
\<close>

datatype stdin_event = Line pystr | Interrupt | InterruptTwice

text \<open>\<^verbatim>\<open>print(s)\<close> writes \<open>s\<close> and a newline; \<^verbatim>\<open>input(p)\<close> writes \<open>p\<close> alone.\<close>

definition write_out :: "pystr \<Rightarrow> world \<Rightarrow> world" where
  "write_out s w = w\<lparr>stdout := stdout w @ s\<rparr>"

definition print :: "pystr \<Rightarrow> world \<Rightarrow> world" where
  "print s w = write_out (s @ [0x0A]) w"

definition syscall :: "syscall \<Rightarrow> world \<Rightarrow> world" where
  "syscall c w = w\<lparr>calls := calls w @ [c]\<rparr>"

subsection \<open>BittensorNetworkSwitcher\<close>

definition network_key :: pystr where
  "network_key = ascii ''network''"

definition mainnet :: pystr where
  "mainnet = ascii ''mainnet''"

definition testnet :: pystr where
  "testnet = ascii ''testnet''"

definition not_set :: pystr where
  "not_set = ascii ''Not set''"

text \<open>
  \<^verbatim>\<open>__init__\<close>: \<^verbatim>\<open>os.makedirs(self.bittensor_dir, exist_ok=True)\<close>. The three path
  attributes are fixed by the home directory and are the places \<open>disk\<close> describes.
\<close>

definition init :: "world \<Rightarrow> world" where
  "init w =
     syscall Makedirs (w\<lparr>disk := (case disk w of NoDir \<Rightarrow> Dir None | Dir f \<Rightarrow> Dir f)\<rparr>)"

text \<open>\<^verbatim>\<open>open(self.config_path, 'r')\<close> and \<^verbatim>\<open>json.load(f)\<close>.\<close>

definition open_read :: "world \<Rightarrow> (exn + content) \<times> world" where
  "open_read w =
     (case config_file (disk w) of None \<Rightarrow> Inl FileNotFoundError | Some c \<Rightarrow> Inr c,
      syscall OpenRead w)"

definition json_load :: "content \<Rightarrow> exn + pyval" where
  "json_load c =
     (case c of
        Undecodable \<Rightarrow> Inl UnicodeDecodeError
      | Malformed \<Rightarrow> Inl JSONDecodeError
      | DigitLimit \<Rightarrow> Inl ValueError
      | DepthLimit \<Rightarrow> Inl RecursionError
      | Json v \<Rightarrow> Inr v)"

definition default_config :: pyval where
  "default_config = PyDict [(network_key, PyStr not_set)]"

definition read_config :: "world \<Rightarrow> (exn + pyval) \<times> world" where
  "read_config w =
     (case open_read w of
        (r, w') \<Rightarrow>
          (case (case r of Inl e \<Rightarrow> Inl e | Inr c \<Rightarrow> json_load c) of
             Inl e \<Rightarrow>
               if e = FileNotFoundError \<or> e = JSONDecodeError then Inr default_config
               else Inl e
           | Inr v \<Rightarrow> Inr v,
           w'))"

text \<open>
  \<^verbatim>\<open>open(self.config_path, 'w')\<close> creates or truncates the file, and raises
  \<^verbatim>\<open>FileNotFoundError\<close> when the directory is missing; \<^verbatim>\<open>json.dump\<close> then writes
  the value.
\<close>

definition write_config :: "pyval \<Rightarrow> world \<Rightarrow> (exn + unit) \<times> world" where
  "write_config config w =
     (case disk w of
        NoDir \<Rightarrow> (Inl FileNotFoundError, syscall OpenWrite w)
      | Dir f \<Rightarrow> (Inr (), syscall OpenWrite (w\<lparr>disk := Dir (Some (Json config))\<rparr>)))"

definition invalid_network_msg :: "pystr \<Rightarrow> pystr" where
  "invalid_network_msg network =
     ascii ''Error: Invalid network '' @ [0x27] @ network @ [0x27] @ ascii ''. Choose ''
     @ [0x27] @ ascii ''mainnet'' @ [0x27] @ ascii '' or '' @ [0x27] @ ascii ''testnet''
     @ [0x27] @ ascii ''.''"

definition success_msg :: "pystr \<Rightarrow> pystr" where
  "success_msg network = [0x2705] @ ascii '' Successfully set network to '' @ network"

definition restart_note :: pystr where
  "restart_note =
     ascii ''Note: You may need to restart your Bittensor services to apply this change.''"

definition switch_network :: "pystr \<Rightarrow> world \<Rightarrow> (exn + unit) \<times> world" where
  "switch_network network w =
     (if network \<notin> set [mainnet, testnet]
      then (Inl (SystemExit 1), print (invalid_network_msg network) w)
      else
        (case read_config w of
           (Inl e, w1) \<Rightarrow> (Inl e, w1)
         | (Inr config, w1) \<Rightarrow>
             (case setitem config network_key (PyStr network) of
                Inl e \<Rightarrow> (Inl e, w1)
              | Inr config' \<Rightarrow>
                  (case write_config config' w1 of
                     (Inl e, w2) \<Rightarrow> (Inl e, w2)
                   | (Inr u, w2) \<Rightarrow>
                       (Inr (), print restart_note (print (success_msg network) w2))))))"

definition check_current_network :: "(pyval \<Rightarrow> pystr) \<Rightarrow> world \<Rightarrow> (exn + unit) \<times> world" where
  "check_current_network py_str w =
     (case read_config w of
        (Inl e, w1) \<Rightarrow> (Inl e, w1)
      | (Inr config, w1) \<Rightarrow>
          (case get_method config network_key (PyStr not_set) of
             Inl e \<Rightarrow> (Inl e, w1)
           | Inr current_network \<Rightarrow>
               (Inr (),
                print (ascii ''Current network: '' @ format_field py_str current_network) w1)))"

subsection \<open>The interactive loop\<close>

datatype flow = Continue | Break

definition prompt :: pystr where
  "prompt = ascii ''Enter your choice (1-4): ''"

definition invalid_choice_msg :: pystr where
  "invalid_choice_msg = ascii ''Invalid choice. Please try again.''"

definition cancelled_msg :: pystr where
  "cancelled_msg = [0x0A] @ ascii ''Operation cancelled.''"

text \<open>
  The body of the \<^verbatim>\<open>try\<close>: \<^verbatim>\<open>input\<close> writes the prompt and reads; a call that
  raises leaves the body with its exception.
\<close>

definition loop_body :: "(pyval \<Rightarrow> pystr) \<Rightarrow> stdin_event \<Rightarrow> world \<Rightarrow> (exn + flow) \<times> world" where
  "loop_body py_str ev w =
     (case ev of
        Interrupt \<Rightarrow> (Inl KeyboardInterrupt, write_out prompt w)
      | InterruptTwice \<Rightarrow> (Inl KeyboardInterrupt, write_out prompt w)
      | Line l \<Rightarrow>
          (let w0 = write_out prompt w; choice = strip l in
           if choice = ascii ''1'' then
             (case switch_network mainnet w0 of
                (Inl e, w1) \<Rightarrow> (Inl e, w1) | (Inr u, w1) \<Rightarrow> (Inr Continue, w1))
           else if choice = ascii ''2'' then
             (case switch_network testnet w0 of
                (Inl e, w1) \<Rightarrow> (Inl e, w1) | (Inr u, w1) \<Rightarrow> (Inr Continue, w1))
           else if choice = ascii ''3'' then
             (case check_current_network py_str w0 of
                (Inl e, w1) \<Rightarrow> (Inl e, w1) | (Inr u, w1) \<Rightarrow> (Inr Continue, w1))
           else if choice = ascii ''4'' then (Inr Break, w0)
           else (Inr Continue, print invalid_choice_msg w0)))"

text \<open>
  The handler \<^verbatim>\<open>print("\nOperation cancelled."); break\<close>. Nothing protects it: a
  second Ctrl-C raises \<^verbatim>\<open>KeyboardInterrupt\<close> out of it.
\<close>

definition interrupt_handler :: "stdin_event \<Rightarrow> world \<Rightarrow> (exn + flow) \<times> world" where
  "interrupt_handler ev w =
     (case ev of
        InterruptTwice \<Rightarrow> (Inl KeyboardInterrupt, w)
      | _ \<Rightarrow> (Inr Break, print cancelled_msg w))"

text \<open>\<^verbatim>\<open>try: ... except KeyboardInterrupt: ...\<close>.\<close>

definition loop_iteration :: "(pyval \<Rightarrow> pystr) \<Rightarrow> stdin_event \<Rightarrow> world \<Rightarrow> (exn + flow) \<times> world" where
  "loop_iteration py_str ev w =
     (case loop_body py_str ev w of
        (Inl e, w1) \<Rightarrow>
          if e = KeyboardInterrupt then interrupt_handler ev w1 else (Inl e, w1)
      | (Inr fl, w1) \<Rightarrow> (Inr fl, w1))"

text \<open>
  \<^verbatim>\<open>while True\<close>. At the end of standard input \<^verbatim>\<open>input\<close> has written the prompt
  and raises \<^verbatim>\<open>EOFError\<close>, which the \<^verbatim>\<open>except\<close> clause does not catch.
\<close>

fun interactive_loop :: "(pyval \<Rightarrow> pystr) \<Rightarrow> stdin_event list \<Rightarrow> world \<Rightarrow> (exn + unit) \<times> world" where
  "interactive_loop py_str [] w = (Inl EOFError, write_out prompt w)"
| "interactive_loop py_str (ev # evs) w =
     (case loop_iteration py_str ev w of
        (Inl e, w1) \<Rightarrow> (Inl e, w1)
      | (Inr Break, w1) \<Rightarrow> (Inr (), w1)
      | (Inr Continue, w1) \<Rightarrow> interactive_loop py_str evs w1)"

definition menu :: "pystr list" where
  "menu =
     [0x1F310 # ascii '' Bittensor Network Switcher'',
      ascii ''1. Switch to Mainnet'',
      ascii ''2. Switch to Testnet'',
      ascii ''3. Check Current Network'',
      ascii ''4. Exit'']"

definition interactive_mode :: "(pyval \<Rightarrow> pystr) \<Rightarrow> stdin_event list \<Rightarrow> world \<Rightarrow> (exn + unit) \<times> world" where
  "interactive_mode py_str evs w = interactive_loop py_str evs (foldl (\<lambda>w' s. print s w') w menu)"

subsection \<open>main\<close>

text \<open>
  The namespace \<^verbatim>\<open>parse_args\<close> returns: \<^verbatim>\<open>args.network\<close> is \<^verbatim>\<open>None\<close> or a
  string, \<^verbatim>\<open>args.check\<close> a bool.
\<close>

record args =
  network :: "pystr option"
  check :: bool

text \<open>
  What the command line is to \<^verbatim>\<open>argparse\<close>, whose reading of the argument strings is
  the library's: it is accepted and gives a namespace; or it asks for help
  (\<^verbatim>\<open>-h\<close>, \<^verbatim>\<open>--help\<close>), and the help text, the library's, is printed; or it is rejected
  (an unknown argument, a missing value, a \<^verbatim>\<open>--network\<close> outside the choices), and the
  usage message goes to standard error.
\<close>

datatype command_line = Accepted args | AsksHelp pystr | Rejected

text \<open>
  \<^verbatim>\<open>parser.parse_args()\<close>: returns the namespace, or exits with status 0 after the help
  text, or with status 2 after the usage message.
\<close>

definition parse_args :: "command_line \<Rightarrow> world \<Rightarrow> (exn + args) \<times> world" where
  "parse_args cl w =
     (case cl of
        Accepted a \<Rightarrow> (Inr a, w)
      | AsksHelp msg \<Rightarrow> (Inl (SystemExit 0), write_out msg w)
      | Rejected \<Rightarrow> (Inl (SystemExit 2), w))"

text \<open>
  \<open>main\<close>: the arguments are parsed before the switcher is constructed.
  \<^verbatim>\<open>if args.network\<close> is false for \<^verbatim>\<open>None\<close> and for the empty string.
\<close>

definition main :: "(pyval \<Rightarrow> pystr) \<Rightarrow> command_line \<Rightarrow> stdin_event list \<Rightarrow> world \<Rightarrow> (exn + unit) \<times> world" where
  "main py_str cl evs w =
     (case parse_args cl w of
        (Inl e, w') \<Rightarrow> (Inl e, w')
      | (Inr a, w') \<Rightarrow>
          (let w0 = init w' in
           case (if network a = Some [] then None else network a) of
             Some n \<Rightarrow> switch_network n w0
           | None \<Rightarrow>
               if check a then check_current_network py_str w0
               else interactive_mode py_str evs w0))"


subsection \<open>Runs of the program\<close>





text \<open>
  The closed examples fix the parameter \<open>py_str\<close>. None of them formats a value that is
  not a str, so the choice is immaterial.
\<close>

definition py_str_unused :: "pyval \<Rightarrow> pystr" where
  "py_str_unused v = []"

section \<open>Properties\<close>

subsection \<open>Auxiliary facts\<close>

lemmas io_defs = write_out_def print_def syscall_def
lemmas name_defs = network_key_def mainnet_def testnet_def not_set_def ascii_def

lemma disk_io [simp]:
  "disk (print s w) = disk w"
  "disk (write_out s w) = disk w"
  "disk (syscall c w) = disk w"
  by (simp_all add: io_defs)

lemma calls_io [simp]:
  "calls (print s w) = calls w"
  "calls (write_out s w) = calls w"
  "calls (syscall c w) = calls w @ [c]"
  by (simp_all add: io_defs)

lemma stdout_io [simp]:
  "stdout (print s w) = stdout w @ s @ [0x0A]"
  "stdout (write_out s w) = stdout w @ s"
  "stdout (syscall c w) = stdout w"
  by (simp_all add: io_defs)





text \<open>What \<open>read_config\<close> returns, by the state of the file.\<close>

lemma read_config_simps:
  "config_file (disk w) = None \<Longrightarrow> read_config w = (Inr default_config, syscall OpenRead w)"
  "config_file (disk w) = Some Malformed \<Longrightarrow>
     read_config w = (Inr default_config, syscall OpenRead w)"
  "config_file (disk w) = Some Undecodable \<Longrightarrow>
     read_config w = (Inl UnicodeDecodeError, syscall OpenRead w)"
  "config_file (disk w) = Some DigitLimit \<Longrightarrow>
     read_config w = (Inl ValueError, syscall OpenRead w)"
  "config_file (disk w) = Some DepthLimit \<Longrightarrow>
     read_config w = (Inl RecursionError, syscall OpenRead w)"
  "config_file (disk w) = Some (Json v) \<Longrightarrow> read_config w = (Inr v, syscall OpenRead w)"
  by (simp_all add: read_config_def open_read_def json_load_def)

lemma content_cases:
  obtains "disk w = NoDir"
  | f where "disk w = Dir f" "f = None \<or> f = Some Malformed"
  | c e where "config_file (disk w) = Some c" "json_load c = Inl e"
      "e \<in> {UnicodeDecodeError, ValueError, RecursionError}"
  | d where "config_file (disk w) = Some (Json (PyDict d))"
  | v where "config_file (disk w) = Some (Json v)" "\<And>d. v \<noteq> PyDict d"
proof (cases "disk w")
  case NoDir
  then show ?thesis using that by simp
next
  case (Dir f)
  show ?thesis
  proof (cases f)
    case None
    then show ?thesis using that Dir by simp
  next
    case (Some c)
    show ?thesis
    proof (cases c)
      case Undecodable
      then show ?thesis using that(3) Dir Some by (simp add: json_load_def)
    next
      case Malformed
      then show ?thesis using that Dir Some by simp
    next
      case DigitLimit
      then show ?thesis using that(3) Dir Some by (simp add: json_load_def)
    next
      case DepthLimit
      then show ?thesis using that(3) Dir Some by (simp add: json_load_def)
    next
      case (Json v)
      then show ?thesis using that(4,5) Dir Some by (cases v) simp_all
    qed
  qed
qed

text \<open>What \<open>switch_network\<close> does, by its argument and the state of the file.\<close>

lemma switch_network_invalid_eq:
  assumes "n \<notin> set [mainnet, testnet]"
  shows "switch_network n w = (Inl (SystemExit 1), print (invalid_network_msg n) w)"
  using assms by (simp add: switch_network_def)

lemma switch_network_dict:
  assumes "n \<in> set [mainnet, testnet]" and "config_file (disk w) = Some (Json (PyDict d))"
  shows "switch_network n w =
     (Inr (), print restart_note (print (success_msg n) (syscall OpenWrite
        (syscall OpenRead w
           \<lparr>disk := Dir (Some (Json (PyDict (dict_set network_key (PyStr n) d))))\<rparr>))))"
proof -
  from assms(2) obtain f where "disk w = Dir f" by (cases "disk w") auto
  then show ?thesis using assms
    by (simp add: switch_network_def read_config_simps setitem_def write_config_def syscall_def)
qed

lemma switch_network_default:
  assumes "n \<in> set [mainnet, testnet]" and "disk w = Dir f" and "f = None \<or> f = Some Malformed"
  shows "switch_network n w =
     (Inr (), print restart_note (print (success_msg n) (syscall OpenWrite
        (syscall OpenRead w\<lparr>disk := Dir (Some (Json (PyDict [(network_key, PyStr n)])))\<rparr>))))"
  using assms
  by (auto simp add: switch_network_def read_config_simps setitem_def write_config_def
      syscall_def default_config_def)

lemma switch_network_nodir:
  assumes "n \<in> set [mainnet, testnet]" and "disk w = NoDir"
  shows "switch_network n w = (Inl FileNotFoundError, syscall OpenWrite (syscall OpenRead w))"
  using assms
  by (auto simp add: switch_network_def read_config_simps setitem_def write_config_def
      syscall_def default_config_def)

lemma switch_network_unloadable:
  assumes "n \<in> set [mainnet, testnet]" and "json_load c = Inl e"
    and "e \<in> {UnicodeDecodeError, ValueError, RecursionError}"
    and "config_file (disk w) = Some c"
  shows "switch_network n w = (Inl e, syscall OpenRead w)"
  using assms
  by (cases c) (auto simp add: switch_network_def read_config_simps json_load_def)

lemma switch_network_not_dict:
  assumes "n \<in> set [mainnet, testnet]" and "config_file (disk w) = Some (Json v)"
    and "\<And>d. v \<noteq> PyDict d"
  shows "switch_network n w = (Inl TypeError, syscall OpenRead w)"
  using assms by (cases v) (auto simp add: switch_network_def read_config_simps setitem_def)


subsection \<open>switch\_network\<close>

text \<open>
  A file that \<^verbatim>\<open>json.load\<close> refuses with an exception other than
  \<^verbatim>\<open>JSONDecodeError\<close> ends the call, JSON object or not: here an object with an
  integer literal beyond the digit limit, and text nested beyond the recursion limit.
\<close>

lemma switch_network_refused_file:
  "switch_network testnet \<lparr>disk = Dir (Some DigitLimit), stdout = [], calls = []\<rparr>
   = (Inl ValueError, \<lparr>disk = Dir (Some DigitLimit), stdout = [], calls = [OpenRead]\<rparr>)"
  "switch_network testnet \<lparr>disk = Dir (Some DepthLimit), stdout = [], calls = []\<rparr>
   = (Inl RecursionError, \<lparr>disk = Dir (Some DepthLimit), stdout = [], calls = [OpenRead]\<rparr>)"
  by (simp_all add: switch_network_def read_config_simps name_defs syscall_def)









subsection \<open>read\_config and check\_current\_network\<close>

text \<open>
  \<open>read_config\<close> returns the default object when the file is missing and when its text
  is not valid JSON.
\<close>

lemma read_config_default:
  assumes "config_file (disk w) = None \<or> config_file (disk w) = Some Malformed"
  shows "fst (read_config w) = Inr (PyDict [(ascii ''network'', PyStr (ascii ''Not set''))])"
  using assms by (auto simp add: read_config_simps default_config_def network_key_def not_set_def)

text \<open>
  C3 asks that \<open>read_config\<close> return the default object for every file content whose
  bytes are not valid JSON. The \<^verbatim>\<open>except\<close> clause names \<^verbatim>\<open>FileNotFoundError\<close> and
  \<^verbatim>\<open>JSONDecodeError\<close> only: when the bytes of the file are not text in the encoding
  \<^verbatim>\<open>open\<close> uses, \<^verbatim>\<open>json.load\<close> raises \<^verbatim>\<open>UnicodeDecodeError\<close>, a
  \<^verbatim>\<open>ValueError\<close> that is not a \<^verbatim>\<open>JSONDecodeError\<close>, and \<open>read_config\<close> raises it to
  its caller.
\<close>

theorem read_config_undecodable:
  "read_config \<lparr>disk = Dir (Some Undecodable), stdout = [], calls = []\<rparr>
   = (Inl UnicodeDecodeError, \<lparr>disk = Dir (Some Undecodable), stdout = [], calls = [OpenRead]\<rparr>)"
  by (simp add: read_config_simps syscall_def)

text \<open>
  C6: when the config file does not exist (the directory missing or not),
  \<open>check_current_network\<close> returns normally, what it prints is the line
  \<^verbatim>\<open>Current network: Not set\<close>, and the directory and the file are as before: its one
  file-system call is the failed \<^verbatim>\<open>open\<close> for reading.
\<close>

theorem check_current_network_missing_file:
  assumes "config_file (disk w) = None"
  shows "check_current_network py_str w
           = (Inr (), w\<lparr>stdout := stdout w @ ascii ''Current network: Not set'' @ [0x0A],
                        calls := calls w @ [OpenRead]\<rparr>)
         \<and> disk (snd (check_current_network py_str w)) = disk w"
  using assms
  by (simp add: check_current_network_def read_config_simps default_config_def get_method_def
      format_field_def io_defs name_defs)

theorem check_current_network_missing_file_witness:
  "config_file (disk \<lparr>disk = NoDir, stdout = [], calls = []\<rparr>) = None
   \<and> check_current_network py_str_unused \<lparr>disk = NoDir, stdout = [], calls = []\<rparr>
     = (Inr (), \<lparr>disk = NoDir, stdout = ascii ''Current network: Not set'' @ [0x0A],
                calls = [OpenRead]\<rparr>)"
  using check_current_network_missing_file
    [of "\<lparr>disk = NoDir, stdout = [], calls = []\<rparr>" py_str_unused]
  by simp

subsection \<open>Facts about the methods and the loop\<close>

lemma disk_read_config: "disk (snd (read_config w)) = disk w"
  by (simp add: read_config_def open_read_def split: prod.splits)

lemma calls_read_config: "calls (snd (read_config w)) = calls w @ [OpenRead]"
  by (simp add: read_config_def open_read_def split: prod.splits)


lemma check_current_network_world:
  "disk (snd (check_current_network py_str w)) = disk w
   \<and> calls (snd (check_current_network py_str w)) = calls w @ [OpenRead]"
proof (cases "read_config w")
  case (Pair r w1)
  then have "disk w1 = disk w" "calls w1 = calls w @ [OpenRead]"
    using disk_read_config [of w] calls_read_config [of w] by simp_all
  then show ?thesis using Pair
    by (simp add: check_current_network_def split: sum.splits)
qed





lemma switch_network_grows:
  "(\<exists>cs. calls (snd (switch_network n w)) = calls w @ cs)
   \<and> (disk w = NoDir \<or> disk (snd (switch_network n w)) \<noteq> NoDir)"
proof (cases "n \<in> set [mainnet, testnet]")
  case False
  then show ?thesis by (simp add: switch_network_invalid_eq)
next
  case True
  show ?thesis
  proof (cases w rule: content_cases)
    case 1
    then show ?thesis using True by (simp add: switch_network_nodir)
  next
    case (2 f)
    then show ?thesis using True by (simp add: switch_network_default del: set_simps)
  next
    case (3 c e)
    then show ?thesis
      by (simp add: switch_network_unloadable [OF True 3(2,3)] del: set_simps)
  next
    case (4 d)
    then show ?thesis using True by (simp add: switch_network_dict del: set_simps)
  next
    case (5 v)
    then show ?thesis using True by (simp add: switch_network_not_dict del: set_simps)
  qed
qed



text \<open>The world after one pass through the loop body.\<close>

lemma snd_loop_body:
  "snd (loop_body py_str ev w) =
     (case ev of
        Interrupt \<Rightarrow> write_out prompt w
      | InterruptTwice \<Rightarrow> write_out prompt w
      | Line l \<Rightarrow>
          if strip l = ascii ''1'' then snd (switch_network mainnet (write_out prompt w))
          else if strip l = ascii ''2'' then snd (switch_network testnet (write_out prompt w))
          else if strip l = ascii ''3'' then snd (check_current_network py_str (write_out prompt w))
          else if strip l = ascii ''4'' then write_out prompt w
          else print invalid_choice_msg (write_out prompt w))"
  by (simp add: loop_body_def Let_def split: stdin_event.splits prod.splits sum.splits)

lemma snd_loop_iteration:
  "snd (loop_iteration py_str ev w) =
     (if fst (loop_body py_str ev w) = Inl KeyboardInterrupt \<and> ev \<noteq> InterruptTwice
      then print cancelled_msg (snd (loop_body py_str ev w))
      else snd (loop_body py_str ev w))"
  by (simp add: loop_iteration_def interrupt_handler_def
      split: prod.splits sum.splits stdin_event.splits)



text \<open>
  A relation between the world before and the world after that output respects, that the
  two methods respect and that is transitive holds across the loop.
\<close>

lemma loop_iteration_rel:
  assumes out: "\<And>w s. R w (write_out s w)"
    and trans: "\<And>a b c. R a b \<Longrightarrow> R b c \<Longrightarrow> R a c"
    and sw: "\<And>n w. R w (snd (switch_network n w))"
    and ck: "\<And>w. R w (snd (check_current_network py_str w))"
  shows "R w (snd (loop_iteration py_str ev w))"
proof -
  have pr: "\<And>w s. R w (print s w)" by (simp add: print_def out)
  have body: "R w (snd (loop_body py_str ev w))"
  proof (cases ev)
    case Interrupt
    then show ?thesis by (simp add: snd_loop_body out)
  next
    case InterruptTwice
    then show ?thesis by (simp add: snd_loop_body out)
  next
    case (Line l)
    have p: "R w (write_out prompt w)" by (rule out)
    show ?thesis
      unfolding snd_loop_body Line stdin_event.case
      by (auto intro: trans [OF p sw] trans [OF p ck] trans [OF p pr] p)
  qed
  show ?thesis
  proof (cases "fst (loop_body py_str ev w) = Inl KeyboardInterrupt \<and> ev \<noteq> InterruptTwice")
    case True
    show ?thesis
      by (simp only: snd_loop_iteration if_P [OF True] trans [OF body pr])
  next
    case False
    show ?thesis
      by (simp only: snd_loop_iteration if_not_P [OF False] body)
  qed
qed

lemma interactive_loop_rel:
  assumes out: "\<And>w s. R w (write_out s w)"
    and trans: "\<And>a b c. R a b \<Longrightarrow> R b c \<Longrightarrow> R a c"
    and sw: "\<And>n w. R w (snd (switch_network n w))"
    and ck: "\<And>w. R w (snd (check_current_network py_str w))"
  shows "R w (snd (interactive_loop py_str evs w))"
proof (induction evs arbitrary: w)
  case Nil
  show ?case by (simp add: out)
next
  case (Cons ev evs)
  have it: "R w (snd (loop_iteration py_str ev w))"
    by (rule loop_iteration_rel [of R, OF out trans sw ck])
  show ?case
  proof (cases "loop_iteration py_str ev w")
    case (Pair r w1)
    then have w1: "R w w1" using it by simp
    show ?thesis
    proof (cases r)
      case (Inl e)
      then show ?thesis using Pair w1 by simp
    next
      case (Inr fl)
      then show ?thesis using Pair w1 trans [OF w1 Cons.IH [of w1]] by (cases fl) simp_all
    qed
  qed
qed

lemma menu_printed:
  "foldl (\<lambda>w' s. print s w') w menu = write_out (concat (map (\<lambda>s. s @ [0x0A]) menu)) w"
  by (simp add: menu_def print_def write_out_def)

lemma interactive_mode_rel:
  assumes out: "\<And>w s. R w (write_out s w)"
    and trans: "\<And>a b c. R a b \<Longrightarrow> R b c \<Longrightarrow> R a c"
    and sw: "\<And>n w. R w (snd (switch_network n w))"
    and ck: "\<And>w. R w (snd (check_current_network py_str w))"
  shows "R w (snd (interactive_mode py_str evs w))"
  unfolding interactive_mode_def menu_printed
  by (rule trans [OF out interactive_loop_rel [of R, OF out trans sw ck]])

lemma main_rel:
  assumes out: "\<And>w s. R w (write_out s w)"
    and trans: "\<And>a b c. R a b \<Longrightarrow> R b c \<Longrightarrow> R a c"
    and sw: "\<And>n w. R w (snd (switch_network n w))"
    and ck: "\<And>w. R w (snd (check_current_network py_str w))"
  shows "R (init w) (snd (main py_str (Accepted a) evs w))"
  by (auto simp add: main_def parse_args_def Let_def
      intro: sw ck interactive_mode_rel [of R, OF out trans sw ck]
      split: option.splits)




lemma config_file_init: "config_file (disk (init w)) = config_file (disk w)"
  by (simp add: init_def split: filesystem.splits)




lemma strip_space_1: "strip (ascii '' 1'') = ascii ''1''"
  by (simp add: strip_def isspace_def ascii_def)

lemma grows_trans:
  assumes "(\<exists>cs. calls b = calls a @ cs) \<and> (disk a = NoDir \<or> disk b \<noteq> NoDir)"
    and "(\<exists>cs. calls c = calls b @ cs) \<and> (disk b = NoDir \<or> disk c \<noteq> NoDir)"
  shows "(\<exists>cs. calls c = calls a @ cs) \<and> (disk a = NoDir \<or> disk c \<noteq> NoDir)"
  using assms by auto

lemma main_grows:
  "(\<exists>cs. calls (snd (main py_str (Accepted a) evs w)) = calls (init w) @ cs)
   \<and> (disk (init w) = NoDir \<or> disk (snd (main py_str (Accepted a) evs w)) \<noteq> NoDir)"
proof -
  let ?R = "\<lambda>w w'. (\<exists>cs. calls w' = calls w @ cs) \<and> (disk w = NoDir \<or> disk w' \<noteq> NoDir)"
  have out: "\<And>w s. ?R w (write_out s w)" by simp
  have trans: "\<And>a b c. ?R a b \<Longrightarrow> ?R b c \<Longrightarrow> ?R a c" by (rule grows_trans)
  have sw: "\<And>n w. ?R w (snd (switch_network n w))" by (rule switch_network_grows)
  have ck: "\<And>w. ?R w (snd (check_current_network py_str w))"
    by (simp add: check_current_network_world)
  show ?thesis
    by (rule main_rel [of ?R py_str w a evs, OF out trans sw ck])
qed

lemma init_world:
  "disk (init w) = (case disk w of NoDir \<Rightarrow> Dir None | Dir f \<Rightarrow> Dir f)"
  "calls (init w) = calls w @ [Makedirs]"
  "stdout (init w) = stdout w"
  by (simp_all add: init_def syscall_def)

subsection \<open>Sequences of operations\<close>




subsection \<open>The interactive loop\<close>

text \<open>
  C8, as stated, fails: the choice is the line after \<^verbatim>\<open>strip()\<close>. The line
  \<^verbatim>\<open>" 1"\<close> is outside the set of the four choices, and on it the loop switches to
  mainnet: the file is written.
\<close>

theorem padded_choice_switches:
  "ascii '' 1'' \<notin> {ascii ''1'', ascii ''2'', ascii ''3'', ascii ''4''}
   \<and> disk (snd (interactive_loop py_str_unused [Line (ascii '' 1'')]
        \<lparr>disk = Dir None, stdout = [], calls = []\<rparr>))
     = Dir (Some (Json (PyDict [(network_key, PyStr mainnet)])))
   \<and> calls (snd (interactive_loop py_str_unused [Line (ascii '' 1'')]
        \<lparr>disk = Dir None, stdout = [], calls = []\<rparr>)) = [OpenRead, OpenWrite]"
proof -
  have "ascii '' 1'' \<notin> {ascii ''1'', ascii ''2'', ascii ''3'', ascii ''4''}"
    by (simp add: ascii_def)
  moreover have "loop_iteration py_str_unused (Line (ascii '' 1''))
        \<lparr>disk = Dir None, stdout = [], calls = []\<rparr>
      = (Inr Continue, snd (switch_network mainnet
          (write_out prompt \<lparr>disk = Dir None, stdout = [], calls = []\<rparr>)))"
    by (simp add: loop_iteration_def loop_body_def strip_space_1 switch_network_default)
  ultimately show ?thesis
    by (simp add: switch_network_default)
qed

text \<open>
  C8, amended: for every input line whose value after \<^verbatim>\<open>strip()\<close> is outside
  \<^verbatim>\<open>{"1","2","3","4"}\<close>, the loop prints the invalid-choice message and goes on with
  the next read, the world changed in its output only (no switch, no check, no exit); a
  line whose stripped value is \<^verbatim>\<open>"4"\<close> ends the loop normally.
\<close>

theorem invalid_choice_stays_in_menu:
  "(strip l \<notin> {ascii ''1'', ascii ''2'', ascii ''3'', ascii ''4''}
      \<longrightarrow> loop_iteration py_str (Line l) w
            = (Inr Continue,
               w\<lparr>stdout := stdout w @ ascii ''Enter your choice (1-4): ''
                    @ ascii ''Invalid choice. Please try again.'' @ [0x0A]\<rparr>)
          \<and> interactive_loop py_str (Line l # evs) w
            = interactive_loop py_str evs
               (w\<lparr>stdout := stdout w @ ascii ''Enter your choice (1-4): ''
                    @ ascii ''Invalid choice. Please try again.'' @ [0x0A]\<rparr>))
   \<and> (strip l = ascii ''4''
      \<longrightarrow> interactive_loop py_str (Line l # evs) w
            = (Inr (), w\<lparr>stdout := stdout w @ ascii ''Enter your choice (1-4): ''\<rparr>))"
proof -
  have ne: "ascii ''4'' \<noteq> ascii ''1''" "ascii ''4'' \<noteq> ascii ''2''" "ascii ''4'' \<noteq> ascii ''3''"
    by (simp_all add: ascii_def)
  have a: "loop_iteration py_str (Line l) w
            = (Inr Continue,
               w\<lparr>stdout := stdout w @ ascii ''Enter your choice (1-4): ''
                    @ ascii ''Invalid choice. Please try again.'' @ [0x0A]\<rparr>)"
    if "strip l \<notin> {ascii ''1'', ascii ''2'', ascii ''3'', ascii ''4''}"
    using that
    by (simp add: loop_iteration_def loop_body_def Let_def io_defs prompt_def
        invalid_choice_msg_def)
  have b: "loop_iteration py_str (Line l) w
            = (Inr Break, w\<lparr>stdout := stdout w @ ascii ''Enter your choice (1-4): ''\<rparr>)"
    if "strip l = ascii ''4''"
    using that ne by (simp add: loop_iteration_def loop_body_def Let_def io_defs prompt_def)
  show ?thesis
    using a b by (auto simp del: insert_iff)
qed

theorem invalid_choice_stays_in_menu_witness:
  "strip (ascii ''x'') \<notin> {ascii ''1'', ascii ''2'', ascii ''3'', ascii ''4''}
   \<and> interactive_loop py_str_unused [Line (ascii ''x'')] \<lparr>disk = NoDir, stdout = [], calls = []\<rparr>
     = (Inl EOFError,
        \<lparr>disk = NoDir,
         stdout = ascii ''Enter your choice (1-4): '' @ ascii ''Invalid choice. Please try again.''
           @ [0x0A] @ ascii ''Enter your choice (1-4): '',
         calls = []\<rparr>)
   \<and> strip (ascii '' 4 '') = ascii ''4''
   \<and> interactive_loop py_str_unused [Line (ascii '' 4 ''), Line (ascii ''1'')]
        \<lparr>disk = NoDir, stdout = [], calls = []\<rparr>
     = (Inr (), \<lparr>disk = NoDir, stdout = ascii ''Enter your choice (1-4): '', calls = []\<rparr>)"
proof -
  let ?w = "\<lparr>disk = NoDir, stdout = [], calls = []\<rparr>"
  have h1: "strip (ascii ''x'') \<notin> {ascii ''1'', ascii ''2'', ascii ''3'', ascii ''4''}"
    by (simp add: strip_def isspace_def ascii_def)
  have h2: "strip (ascii '' 4 '') = ascii ''4''"
    by (simp add: strip_def isspace_def ascii_def)
  show ?thesis
    using h1 h2
      invalid_choice_stays_in_menu [of "ascii ''x''" py_str_unused ?w "[]"]
      invalid_choice_stays_in_menu [of "ascii '' 4 ''" py_str_unused ?w "[Line (ascii ''1'')]"]
    by (simp add: io_defs prompt_def del: insert_iff)
qed




subsection \<open>main\<close>

text \<open>
  C10, as stated, fails: \<^verbatim>\<open>parse_args\<close> runs before the switcher is constructed. An
  invocation whose arguments the parser rejects (\<^verbatim>\<open>--network invalidnet\<close>) exits with
  status 2 and no \<^verbatim>\<open>makedirs\<close>: the directory is still absent.
\<close>

theorem rejected_arguments_create_nothing:
  "main py_str_unused Rejected [] \<lparr>disk = NoDir, stdout = [], calls = []\<rparr>
   = (Inl (SystemExit 2), \<lparr>disk = NoDir, stdout = [], calls = []\<rparr>)"
  by (simp add: main_def parse_args_def)

text \<open>
  C10, amended: on every invocation whose arguments the parser accepts, whatever they are
  (a switch, \<^verbatim>\<open>--check\<close>, or the interactive menu), the first file-system call is the
  \<^verbatim>\<open>makedirs\<close> of the constructor, and the directory exists when \<open>main\<close> ends. The
  constructor creates the directory only: the config file is as before and nothing is
  printed. An invocation with \<^verbatim>\<open>--check\<close>, and one that enters the menu and reads no
  choice, leave the disk as the constructor left it.
\<close>

theorem main_creates_directory_first:
  "(\<exists>cs. calls (snd (main py_str (Accepted a) evs w)) = calls w @ Makedirs # cs)
   \<and> disk (snd (main py_str (Accepted a) evs w)) \<noteq> NoDir
   \<and> disk (init w) = (case disk w of NoDir \<Rightarrow> Dir None | Dir f \<Rightarrow> Dir f)
   \<and> config_file (disk (init w)) = config_file (disk w)
   \<and> stdout (init w) = stdout w
   \<and> disk (snd (main py_str (Accepted \<lparr>network = None, check = True\<rparr>) evs w)) = disk (init w)
   \<and> disk (snd (main py_str (Accepted \<lparr>network = None, check = False\<rparr>) [] w)) = disk (init w)"
proof -
  have d: "disk (init w) \<noteq> NoDir" by (simp add: init_world split: filesystem.splits)
  have "\<exists>cs. calls (snd (main py_str (Accepted a) evs w)) = calls w @ Makedirs # cs"
    using main_grows [of py_str a evs w] by (auto simp add: init_world)
  moreover have "disk (snd (main py_str (Accepted a) evs w)) \<noteq> NoDir"
    using main_grows [of py_str a evs w] d by simp
  moreover have "disk (snd (main py_str (Accepted \<lparr>network = None, check = True\<rparr>) evs w))
      = disk (init w)"
    by (simp add: main_def parse_args_def check_current_network_world)
  moreover have "disk (snd (main py_str (Accepted \<lparr>network = None, check = False\<rparr>) [] w))
      = disk (init w)"
    by (simp add: main_def parse_args_def interactive_mode_def menu_printed)
  moreover note config_file_init [of w] init_world(1,3) [of w]
  ultimately show ?thesis by blast
qed

end
